theory Spec2Isabelle
  imports Main
begin

section \<open>Python values seen by the importer\<close>

text \<open>
  The exceptions the handlers of \<^verbatim>\<open>import_phpipam_to_netbox.py\<close> tell apart:
  \<^verbatim>\<open>except ValueError\<close>, \<^verbatim>\<open>except (ValueError, AttributeError)\<close> and
  \<^verbatim>\<open>except Exception\<close>. \<open>IndexError\<close> is what \<^verbatim>\<open>row.iloc[0]\<close> raises on a row
  without columns, \<open>RequestError\<close> is pynetbox's own exception class.
\<close>

datatype exn = ValueError | AttributeError | IndexError | RequestError

text \<open>
  A cell of a data frame row. The script looks at a cell only through
  \<^verbatim>\<open>isinstance(x, str)\<close>, \<^verbatim>\<open>pd.notna(x)\<close>, \<^verbatim>\<open>str(x)\<close> and its truth value, so a
  cell that is neither a string nor null (a number, a boolean, a timestamp) is kept as
  these two observations: the text \<^verbatim>\<open>str(x)\<close> returns and whether it is truthy.
  \<open>NaN\<close> is the empty spreadsheet cell, \<open>PyNone\<close> is Python's \<^verbatim>\<open>None\<close>.

  A \<open>string\<close> is a Python \<^verbatim>\<open>str\<close> whose characters have code points below 256;
  one \<open>char\<close> is one character, so \<open>length\<close> is Python's \<^verbatim>\<open>len\<close>.
\<close>

datatype cell = Str string | NaN | PyNone | Other string bool

fun isinstance_str :: "cell \<Rightarrow> bool" where
  "isinstance_str (Str s) = True"
| "isinstance_str c = False"

fun notna :: "cell \<Rightarrow> bool" where
  "notna NaN = False"
| "notna PyNone = False"
| "notna c = True"

fun py_str :: "cell \<Rightarrow> string" where
  "py_str (Str s) = s"
| "py_str NaN = ''nan''"
| "py_str PyNone = ''None''"
| "py_str (Other s b) = s"

fun truthy :: "cell \<Rightarrow> bool" where
  "truthy (Str s) = (s \<noteq> [])"
| "truthy NaN = True"
| "truthy PyNone = False"
| "truthy (Other s b) = b"

subsection \<open>String methods\<close>

text \<open>
  \<^verbatim>\<open>str.isspace\<close> on the characters below 256: tab, line feed, vertical tab, form
  feed, carriage return, the four separators 28 to 31, space, NEL (133) and the
  no-break space (160). \<^verbatim>\<open>s.strip()\<close> removes them from both ends.
\<close>

definition isspace :: "char \<Rightarrow> bool" where
  "isspace c \<longleftrightarrow> (of_char c :: nat) \<in> {9, 10, 11, 12, 13, 28, 29, 30, 31, 32, 133, 160}"

definition strip :: "string \<Rightarrow> string" where
  "strip s = rev (dropWhile isspace (rev (dropWhile isspace s)))"

text \<open>
  \<^verbatim>\<open>s.lower()\<close>: the letters A to Z and, above 127, the capitals 192 to 222 without
  the multiplication sign 215 move up by 32; every other character below 256 stays.
\<close>

definition lower_char :: "char \<Rightarrow> char" where
  "lower_char c =
     (let n = (of_char c :: nat)
      in if (65 \<le> n \<and> n \<le> 90) \<or> (192 \<le> n \<and> n \<le> 222 \<and> n \<noteq> 215)
         then char_of (n + 32) else c)"

definition lower :: "string \<Rightarrow> string" where
  "lower s = map lower_char s"

text \<open>
  \<^verbatim>\<open>s.split(sep)\<close> for a separator that is not empty (every call of the script and
  of the library passes a literal): the text is cut at each occurrence of \<open>sep\<close>,
  found from the left, occurrences not overlapping. The result always has at least one
  part.
\<close>

fun str_split :: "string \<Rightarrow> string \<Rightarrow> string list" where
  "str_split sep [] = [[]]"
| "str_split sep (c # cs) =
     (if sep \<noteq> [] \<and> take (length sep) (c # cs) = sep
      then [] # str_split sep (drop (length sep - 1) cs)
      else (let r = str_split sep cs in (c # hd r) # tl r))"

text \<open>\<^verbatim>\<open>sep.join(parts)\<close>.\<close>

fun str_join :: "string \<Rightarrow> string list \<Rightarrow> string" where
  "str_join sep [] = []"
| "str_join sep [x] = x"
| "str_join sep (x # y # ys) = x @ sep @ str_join sep (y # ys)"

section \<open>The two collaborators: the ipaddress module and the NetBox client\<close>

text \<open>
  \<^verbatim>\<open>from ipaddress import ip_network, ip_address\<close>. Both are functions of the
  standard library, not of the script, and are taken as parameters: \<open>ip_network lib s\<close>
  holds when \<^verbatim>\<open>ip_network(s)\<close> returns a network, and fails with a \<^verbatim>\<open>ValueError\<close>
  otherwise; \<open>ip_address lib s\<close> is the \<^verbatim>\<open>version\<close> of the address
  \<^verbatim>\<open>ip_address(s)\<close> returns, or \<open>None\<close> when it raises \<^verbatim>\<open>ValueError\<close>.
\<close>

datatype ip_version = IPv4 | IPv6

record ipaddress =
  ip_network :: "string \<Rightarrow> bool"
  ip_address :: "string \<Rightarrow> ip_version option"

text \<open>
  The pynetbox handle \<^verbatim>\<open>self.nb\<close>. The script issues four calls:
  \<^verbatim>\<open>nb.ipam.prefixes.get(prefix=)\<close>,
  \<^verbatim>\<open>nb.ipam.prefixes.create(prefix=, description=, status=)\<close>,
  \<^verbatim>\<open>nb.ipam.ip_addresses.get(address=)\<close> and
  \<^verbatim>\<open>nb.ipam.ip_addresses.create(address=, dns_name=, description=, status=)\<close>.
  The client is a parameter too. Each operation runs on the state \<open>'s\<close> behind the
  API (the remote inventory, the connection), may change it, and either raises or
  returns. Of the object a \<^verbatim>\<open>get\<close> returns the script uses only the truth value
  (\<^verbatim>\<open>if existing:\<close>), of the object a \<^verbatim>\<open>create\<close> returns nothing.
\<close>

record 's pynetbox =
  prefixes_get :: "string \<Rightarrow> 's \<Rightarrow> (exn + bool) \<times> 's"
  prefixes_create :: "string \<Rightarrow> string \<Rightarrow> string \<Rightarrow> 's \<Rightarrow> (exn + unit) \<times> 's"
  ip_addresses_get :: "string \<Rightarrow> 's \<Rightarrow> (exn + bool) \<times> 's"
  ip_addresses_create ::
    "string \<Rightarrow> cell \<Rightarrow> string \<Rightarrow> string \<Rightarrow> 's \<Rightarrow> (exn + unit) \<times> 's"

text \<open>The calls issued to the client, with their keyword arguments in the order above.\<close>

datatype call =
    PrefixesGet string
  | PrefixesCreate string string string
  | IpAddressesGet string
  | IpAddressesCreate string cell string string

section \<open>The importer\<close>

text \<open>
  \<^verbatim>\<open>self.stats\<close> is a dictionary with five fixed keys, each an unbounded integer.
\<close>

datatype stat_key = prefixes_created | prefixes_skipped | ips_created | ips_skipped | errors

type_synonym stats = "stat_key \<Rightarrow> int"

text \<open>
  The state of a \<^verbatim>\<open>PhpIpamImporter\<close>: what is behind \<^verbatim>\<open>self.nb\<close>, the counters
  \<^verbatim>\<open>self.stats\<close>, and (not in the source) the list of the client calls issued so far,
  oldest first. Console output is left out: \<^verbatim>\<open>VERBOSE\<close> guards \<^verbatim>\<open>print\<close> calls only.
\<close>

record 's importer =
  nb :: 's
  stats :: stats
  calls :: "call list"

text \<open>
  \<^verbatim>\<open>PhpIpamImporter.__init__\<close> followed by \<^verbatim>\<open>connect_netbox\<close>: all counters zero,
  the client connected.
\<close>

definition init :: "'s \<Rightarrow> 's importer" where
  "init s = \<lparr>nb = s, stats = (\<lambda>k. 0), calls = []\<rparr>"

text \<open>\<^verbatim>\<open>self.stats[k] += 1\<close>.\<close>

definition incr :: "stat_key \<Rightarrow> 's importer \<Rightarrow> 's importer" where
  "incr k w = w\<lparr>stats := (stats w)(k := stats w k + 1)\<rparr>"

text \<open>One client call: the state behind the API moves on and the call is recorded.\<close>

definition invoke :: "call \<Rightarrow> ('s \<Rightarrow> 'r \<times> 's) \<Rightarrow> 's importer \<Rightarrow> 'r \<times> 's importer" where
  "invoke cl f w = (case f (nb w) of (r, s') \<Rightarrow> (r, w\<lparr>nb := s', calls := calls w @ [cl]\<rparr>))"

subsection \<open>\<^verbatim>\<open>parse_subnet_header\<close> (lines 73 to 90)\<close>

text \<open>
  Returns \<^verbatim>\<open>(subnet, description)\<close> or \<^verbatim>\<open>(None, None)\<close>, here \<open>Some\<close> or \<open>None\<close>.
  The bare \<^verbatim>\<open>except:\<close> turns every failure of \<^verbatim>\<open>ip_network\<close> into \<^verbatim>\<open>(None, None)\<close>.
\<close>

definition parse_subnet_header :: "ipaddress \<Rightarrow> cell \<Rightarrow> (string \<times> string) option" where
  "parse_subnet_header lib header =
     (case header of
        Str h \<Rightarrow>
          if CHR ''/'' \<notin> set h then None
          else
            (let parts = str_split '' - '' h
             in if length parts < 2 then None
                else
                  (let subnet = strip (hd parts);
                       description = str_join '' - '' (tl parts)
                   in if ip_network lib subnet then Some (subnet, description) else None))
      | _ \<Rightarrow> None)"

subsection \<open>\<^verbatim>\<open>create_prefix\<close> (lines 92 to 124)\<close>

text \<open>
  \<open>dry_run\<close> is the module constant \<^verbatim>\<open>DRY_RUN\<close>. The whole body is inside
  \<^verbatim>\<open>try: ... except Exception\<close>: whatever a client call raises is counted in
  \<open>errors\<close> and the method returns. The value returned (the record found or created,
  \<^verbatim>\<open>True\<close>, \<^verbatim>\<open>None\<close>) is dropped by the only caller and is not modelled.
\<close>

definition create_prefix ::
  "bool \<Rightarrow> 's pynetbox \<Rightarrow> string \<Rightarrow> string \<Rightarrow> 's importer \<Rightarrow> 's importer" where
  "create_prefix dry_run c subnet description w =
     (if \<not> dry_run then
        (case invoke (PrefixesGet subnet) (prefixes_get c subnet) w of
           (Inl e, w1) \<Rightarrow> incr errors w1
         | (Inr existing, w1) \<Rightarrow>
             if existing then incr prefixes_skipped w1
             else
               (let d = (if description \<noteq> [] then take 200 description else [])
                in case invoke (PrefixesCreate subnet d ''active'')
                          (prefixes_create c subnet d ''active'') w1 of
                     (Inl e, w2) \<Rightarrow> incr errors w2
                   | (Inr u, w2) \<Rightarrow> incr prefixes_created w2))
      else incr prefixes_created w)"

subsection \<open>\<^verbatim>\<open>create_ip_address\<close> (lines 126 to 174)\<close>

text \<open>
  The two handlers that close the \<^verbatim>\<open>try\<close> of \<^verbatim>\<open>create_ip_address\<close>, in their
  order: \<^verbatim>\<open>except ValueError: pass\<close>, then \<^verbatim>\<open>except Exception\<close>, which counts an
  error.
\<close>

definition ip_handlers :: "exn \<Rightarrow> 's importer \<Rightarrow> 's importer" where
  "ip_handlers e w = (if e = ValueError then w else incr errors w)"

text \<open>Lines 146 to 151: the description parts and their join.\<close>

definition full_description :: "cell \<Rightarrow> cell \<Rightarrow> string" where
  "full_description description note =
     (let desc_parts =
            (if notna description \<and> truthy description then [py_str description] else []) @
            (if notna note \<and> truthy note then [''Note: '' @ py_str note] else [])
      in if desc_parts \<noteq> [] then str_join '' | '' desc_parts else [])"

text \<open>Line 131: the address with a full-length mask.\<close>

definition ip_with_mask :: "string \<Rightarrow> ip_version \<Rightarrow> string" where
  "ip_with_mask ip version = (if version = IPv4 then ip @ ''/32'' else ip @ ''/128'')"

text \<open>
  \<^verbatim>\<open>ip_address(ip)\<close> is the first statement of the \<^verbatim>\<open>try\<close>: when it raises
  \<^verbatim>\<open>ValueError\<close>, the first handler returns with nothing changed. \<open>mac\<close>, \<open>owner\<close>,
  \<open>device\<close> and \<open>port\<close> are parameters the body never reads.
\<close>

definition create_ip_address ::
  "bool \<Rightarrow> ipaddress \<Rightarrow> 's pynetbox \<Rightarrow> string \<Rightarrow> cell \<Rightarrow> cell \<Rightarrow> cell \<Rightarrow> cell \<Rightarrow> cell \<Rightarrow> cell \<Rightarrow> cell
     \<Rightarrow> 's importer \<Rightarrow> 's importer" where
  "create_ip_address dry_run lib c ip hostname description mac owner device port note w =
     (case ip_address lib ip of
        None \<Rightarrow> ip_handlers ValueError w
      | Some version \<Rightarrow>
          (let key = ip_with_mask ip version
           in if \<not> dry_run then
                (case invoke (IpAddressesGet key) (ip_addresses_get c key) w of
                   (Inl e, w1) \<Rightarrow> ip_handlers e w1
                 | (Inr existing, w1) \<Rightarrow>
                     if existing then incr ips_skipped w1
                     else
                       (let fd = full_description description note;
                            dns_name = (if notna hostname then hostname else Str []);
                            d = (if fd \<noteq> [] then take 200 fd else [])
                        in case invoke (IpAddressesCreate key dns_name d ''active'')
                                  (ip_addresses_create c key dns_name d ''active'') w1 of
                             (Inl e, w2) \<Rightarrow> ip_handlers e w2
                           | (Inr u, w2) \<Rightarrow> incr ips_created w2))
              else incr ips_created w))"

subsection \<open>\<^verbatim>\<open>process_data\<close> (lines 176 to 223)\<close>

text \<open>
  What the loop body decides about a row, before it acts. The source has no function of
  this name: the four outcomes are the branches of lines 185 to 223, named as the
  specification names them. \<open>AddressData\<close> carries \<open>ip\<close>, \<open>ip_state\<close>, \<open>description\<close>,
  \<open>hostname\<close>, \<open>mac\<close>, \<open>owner\<close>, \<open>device\<close>, \<open>port\<close> and \<open>note\<close>.
\<close>

datatype row_kind =
    SubnetHeader string string
  | ColumnTitle
  | AddressData string cell cell cell cell cell cell cell cell
  | Noise

text \<open>\<^verbatim>\<open>row.iloc[k] if len(row) > k else None\<close>.\<close>

definition iloc_or_none :: "cell list \<Rightarrow> nat \<Rightarrow> cell" where
  "iloc_or_none row k = (if length row > k then row ! k else PyNone)"

text \<open>
  Lines 185 to 217. \<^verbatim>\<open>row.iloc[0]\<close> is read without a guard and raises
  \<^verbatim>\<open>IndexError\<close> on a row with no column. \<^verbatim>\<open>if subnet:\<close> (line 190) asks for a
  subnet that is neither \<^verbatim>\<open>None\<close> nor empty. The column-title test (line 198)
  compares \<^verbatim>\<open>first_col.lower()\<close>, not stripped. The address test (lines 205 to 207)
  parses \<^verbatim>\<open>str(first_col).strip()\<close>; a \<^verbatim>\<open>ValueError\<close> there is caught at line 221.
\<close>

definition classify :: "ipaddress \<Rightarrow> cell list \<Rightarrow> exn + row_kind" where
  "classify lib row =
     (case row of
        [] \<Rightarrow> Inl IndexError
      | first_col # rest \<Rightarrow>
          Inr (case (if isinstance_str first_col
                     then (case parse_subnet_header lib first_col of
                             Some (subnet, description) \<Rightarrow>
                               if subnet \<noteq> [] then Some (subnet, description) else None
                           | None \<Rightarrow> None)
                     else None) of
                 Some (subnet, description) \<Rightarrow> SubnetHeader subnet description
               | None \<Rightarrow>
                   if isinstance_str first_col \<and> lower (py_str first_col) = ''ip address''
                   then ColumnTitle
                   else if notna first_col then
                     (case ip_address lib (strip (py_str first_col)) of
                        Some version \<Rightarrow>
                          AddressData (strip (py_str first_col))
                            (iloc_or_none row 1) (iloc_or_none row 2) (iloc_or_none row 3)
                            (iloc_or_none row 4) (iloc_or_none row 5) (iloc_or_none row 6)
                            (iloc_or_none row 7) (iloc_or_none row 8)
                      | None \<Rightarrow> Noise)
                   else Noise))"

text \<open>
  The loop variables \<^verbatim>\<open>current_subnet\<close> and \<^verbatim>\<open>current_description\<close>, set together
  at lines 192 and 193: \<open>None\<close> until the first subnet header.
\<close>

type_synonym current = "(string \<times> string) option"

text \<open>
  One turn of the loop: a subnet header becomes the current subnet and goes to
  \<^verbatim>\<open>create_prefix\<close>; an address row goes to \<^verbatim>\<open>create_ip_address\<close> (which is
  handed \<open>hostname\<close> before \<open>description\<close>, and not \<open>ip_state\<close>); the other rows do
  nothing. Both methods catch every exception of their body, so only the
  \<^verbatim>\<open>IndexError\<close> of line 185 leaves the loop.
\<close>

definition process_row ::
  "bool \<Rightarrow> ipaddress \<Rightarrow> 's pynetbox \<Rightarrow> cell list \<Rightarrow> current \<times> 's importer
     \<Rightarrow> exn + current \<times> 's importer" where
  "process_row dry_run lib c row st =
     (case st of (cur, w) \<Rightarrow>
        (case classify lib row of
           Inl e \<Rightarrow> Inl e
         | Inr (SubnetHeader subnet description) \<Rightarrow>
             Inr (Some (subnet, description), create_prefix dry_run c subnet description w)
         | Inr ColumnTitle \<Rightarrow> Inr (cur, w)
         | Inr (AddressData ip ip_state description hostname mac owner device port note) \<Rightarrow>
             Inr (cur, create_ip_address dry_run lib c ip hostname description mac owner device
                         port note w)
         | Inr Noise \<Rightarrow> Inr (cur, w)))"

fun process_rows ::
  "bool \<Rightarrow> ipaddress \<Rightarrow> 's pynetbox \<Rightarrow> cell list list \<Rightarrow> current \<times> 's importer
     \<Rightarrow> exn + current \<times> 's importer" where
  "process_rows dry_run lib c [] st = Inr st"
| "process_rows dry_run lib c (row # df) st =
     (case process_row dry_run lib c row st of
        Inl e \<Rightarrow> Inl e
      | Inr st' \<Rightarrow> process_rows dry_run lib c df st')"

definition process_data ::
  "bool \<Rightarrow> ipaddress \<Rightarrow> 's pynetbox \<Rightarrow> cell list list \<Rightarrow> 's importer \<Rightarrow> exn + 's importer" where
  "process_data dry_run lib c df w =
     (case process_rows dry_run lib c df (None, w) of
        Inl e \<Rightarrow> Inl e
      | Inr (cur, w') \<Rightarrow> Inr w')"

subsection \<open>The calls of a run, as data\<close>

text \<open>
  \<^verbatim>\<open>process_data\<close> reaches the client only through its two calls
  \<^verbatim>\<open>self.create_prefix(subnet, description)\<close> (line 194) and
  \<^verbatim>\<open>self.create_ip_address(ip, hostname, description, mac, owner, device, port, note)\<close>
  (line 219). An intent is one such call with its arguments; \<open>reconcile\<close> makes the
  calls of a list in order, on one importer.
\<close>

datatype intent =
    CreateSubnet string string
  | CreateAddress string cell cell cell cell cell cell cell


fun apply_intent :: "bool \<Rightarrow> ipaddress \<Rightarrow> 's pynetbox \<Rightarrow> intent \<Rightarrow> 's importer \<Rightarrow> 's importer" where
  "apply_intent dry_run lib c (CreateSubnet subnet description) w =
     create_prefix dry_run c subnet description w"
| "apply_intent dry_run lib c (CreateAddress ip hostname description mac owner device port note) w =
     create_ip_address dry_run lib c ip hostname description mac owner device port note w"

fun reconcile :: "bool \<Rightarrow> ipaddress \<Rightarrow> 's pynetbox \<Rightarrow> intent list \<Rightarrow> 's importer \<Rightarrow> 's importer" where
  "reconcile dry_run lib c [] w = w"
| "reconcile dry_run lib c (i # is) w = reconcile dry_run lib c is (apply_intent dry_run lib c i w)"


text \<open>The intents that count: subnets, and addresses \<^verbatim>\<open>ip_address\<close> accepts.\<close>

fun is_subnet :: "intent \<Rightarrow> bool" where
  "is_subnet (CreateSubnet subnet description) = True"
| "is_subnet i = False"

fun is_valid_address :: "ipaddress \<Rightarrow> intent \<Rightarrow> bool" where
  "is_valid_address lib (CreateAddress ip hostname description mac owner device port note) =
     (ip_address lib ip \<noteq> None)"
| "is_valid_address lib i = False"

section \<open>The collaborators at work\<close>

subsection \<open>CPython's \<^verbatim>\<open>ipaddress\<close> on strings\<close>

text \<open>
  What \<^verbatim>\<open>ip_address(s)\<close> and \<^verbatim>\<open>ip_network(s)\<close> of CPython 3.11
  (\<^verbatim>\<open>Lib/ipaddress.py\<close>) do with a string, function by function. The module's two
  exception classes are subclasses of \<^verbatim>\<open>ValueError\<close>; a network with host bits set
  raises a plain \<^verbatim>\<open>ValueError\<close>.
\<close>

unbundle bit_operations_syntax

datatype ip_error = AddressValueError | NetmaskValueError | PlainValueError

text \<open>\<^verbatim>\<open>s.isascii() and s.isdigit()\<close>: not empty, and every character one of 0 to 9.\<close>

definition ascii_digits :: "string \<Rightarrow> bool" where
  "ascii_digits s \<longleftrightarrow> s \<noteq> [] \<and> list_all (\<lambda>c. c \<in> set ''0123456789'') s"

text \<open>\<^verbatim>\<open>int(s, 10)\<close> on a string of such digits.\<close>

definition int_of_decimal :: "string \<Rightarrow> nat" where
  "int_of_decimal s = foldl (\<lambda>n c. 10 * n + (of_char c - 48)) 0 s"

text \<open>\<^verbatim>\<open>_BaseV4._parse_octet\<close>; \<open>None\<close> is its \<^verbatim>\<open>ValueError\<close>.\<close>

definition parse_octet :: "string \<Rightarrow> nat option" where
  "parse_octet octet_str =
     (if octet_str = [] then None
      else if \<not> ascii_digits octet_str then None
      else if length octet_str > 3 then None
      else if octet_str \<noteq> ''0'' \<and> hd octet_str = CHR ''0'' then None
      else (let octet_int = int_of_decimal octet_str
            in if octet_int > 255 then None else Some octet_int))"

text \<open>\<^verbatim>\<open>_BaseV4._ip_int_from_string\<close>; the octets are joined big-endian.\<close>

definition v4_ip_int_from_string :: "string \<Rightarrow> ip_error + nat" where
  "v4_ip_int_from_string ip_str =
     (if ip_str = [] then Inl AddressValueError
      else
        (let octets = str_split ''.'' ip_str
         in if length octets \<noteq> 4 then Inl AddressValueError
            else (case those (map parse_octet octets) of
                    None \<Rightarrow> Inl AddressValueError
                  | Some bs \<Rightarrow> Inr (foldl (\<lambda>n b. 256 * n + b) 0 bs))))"

text \<open>\<^verbatim>\<open>IPv4Address.__init__\<close> on a string.\<close>

definition IPv4Address :: "string \<Rightarrow> ip_error + nat" where
  "IPv4Address addr_str =
     (if CHR ''/'' \<in> set addr_str then Inl AddressValueError
      else v4_ip_int_from_string addr_str)"

text \<open>
  \<^verbatim>\<open>_count_righthand_zero_bits(number, bits)\<close>: the number of zero bits at the right
  of \<open>number\<close>, at most \<open>bits\<close>, and \<open>bits\<close> for zero.
\<close>

fun count_righthand_zero_bits :: "nat \<Rightarrow> nat \<Rightarrow> nat" where
  "count_righthand_zero_bits number 0 = 0"
| "count_righthand_zero_bits number (Suc bits) =
     (if odd number then 0 else Suc (count_righthand_zero_bits (number div 2) bits))"

text \<open>\<^verbatim>\<open>_ip_int_from_prefix\<close> and \<^verbatim>\<open>_prefix_from_ip_int\<close>, for addresses of \<open>m\<close> bits.\<close>

definition ip_int_from_prefix :: "nat \<Rightarrow> nat \<Rightarrow> nat" where
  "ip_int_from_prefix m prefixlen = (2 ^ m - 1) XOR drop_bit prefixlen (2 ^ m - 1)"

definition prefix_from_ip_int :: "nat \<Rightarrow> nat \<Rightarrow> nat option" where
  "prefix_from_ip_int m ip_int =
     (let trailing_zeroes = count_righthand_zero_bits ip_int m;
          prefixlen = m - trailing_zeroes;
          leading_ones = drop_bit trailing_zeroes ip_int;
          all_ones = 2 ^ prefixlen - 1
      in if leading_ones \<noteq> all_ones then None else Some prefixlen)"

text \<open>\<^verbatim>\<open>_prefix_from_prefix_string\<close>.\<close>

definition prefix_from_prefix_string :: "nat \<Rightarrow> string \<Rightarrow> ip_error + nat" where
  "prefix_from_prefix_string m prefixlen_str =
     (if \<not> ascii_digits prefixlen_str then Inl NetmaskValueError
      else (let prefixlen = int_of_decimal prefixlen_str
            in if \<not> prefixlen \<le> m then Inl NetmaskValueError else Inr prefixlen))"

text \<open>\<^verbatim>\<open>_prefix_from_ip_string\<close> (used for version 4 only): a netmask, else a hostmask.\<close>

definition prefix_from_ip_string :: "string \<Rightarrow> ip_error + nat" where
  "prefix_from_ip_string ip_str =
     (case v4_ip_int_from_string ip_str of
        Inl e \<Rightarrow> Inl NetmaskValueError
      | Inr ip_int \<Rightarrow>
          (case prefix_from_ip_int 32 ip_int of
             Some p \<Rightarrow> Inr p
           | None \<Rightarrow>
               (case prefix_from_ip_int 32 (ip_int XOR (2 ^ 32 - 1)) of
                  Some p \<Rightarrow> Inr p
                | None \<Rightarrow> Inl NetmaskValueError)))"

text \<open>
  \<^verbatim>\<open>_split_addr_prefix\<close> with \<^verbatim>\<open>_split_optional_netmask\<close>: the text before the
  slash and, when there is a slash, the text after it.
\<close>

definition split_addr_prefix :: "string \<Rightarrow> ip_error + string \<times> string option" where
  "split_addr_prefix address =
     (let addr = str_split ''/'' address
      in if length addr > 2 then Inl AddressValueError
         else if length addr > 1 then Inr (hd addr, Some (addr ! 1))
         else Inr (hd addr, None))"

text \<open>\<^verbatim>\<open>_BaseV4._make_netmask\<close>: no mask is the full length.\<close>

definition v4_make_netmask :: "string option \<Rightarrow> ip_error + nat" where
  "v4_make_netmask arg =
     (case arg of
        None \<Rightarrow> Inr 32
      | Some a \<Rightarrow>
          (case prefix_from_prefix_string 32 a of
             Inr p \<Rightarrow> Inr p
           | Inl e \<Rightarrow> prefix_from_ip_string a))"

text \<open>\<^verbatim>\<open>IPv4Network.__init__\<close> with \<^verbatim>\<open>strict=True\<close>.\<close>

definition IPv4Network :: "string \<Rightarrow> ip_error + nat \<times> nat" where
  "IPv4Network address =
     (case split_addr_prefix address of
        Inl e \<Rightarrow> Inl e
      | Inr (addr, msk) \<Rightarrow>
          (case IPv4Address addr of
             Inl e \<Rightarrow> Inl e
           | Inr packed \<Rightarrow>
               (case v4_make_netmask msk of
                  Inl e \<Rightarrow> Inl e
                | Inr prefixlen \<Rightarrow>
                    if packed AND ip_int_from_prefix 32 prefixlen \<noteq> packed
                    then Inl PlainValueError
                    else Inr (packed, prefixlen))))"

text \<open>
  \<^verbatim>\<open>_BaseV6._parse_hextet\<close>: hexadecimal digits only, at most four;
  \<^verbatim>\<open>int('', 16)\<close> raises on the empty text. \<open>None\<close> is its \<^verbatim>\<open>ValueError\<close>.
\<close>

definition hex_value :: "char \<Rightarrow> nat" where
  "hex_value c =
     (let n = (of_char c :: nat)
      in if n \<le> 57 then n - 48 else if n \<le> 70 then n - 55 else n - 87)"

definition parse_hextet :: "string \<Rightarrow> nat option" where
  "parse_hextet hextet_str =
     (if \<not> list_all (\<lambda>c. c \<in> set ''0123456789ABCDEFabcdef'') hextet_str then None
      else if length hextet_str > 4 then None
      else if hextet_str = [] then None
      else Some (foldl (\<lambda>n c. 16 * n + hex_value c) 0 hextet_str))"

text \<open>\<^verbatim>\<open>'%x' % n\<close>: lower-case hexadecimal without leading zeros.\<close>

function format_x :: "nat \<Rightarrow> string" where
  "format_x n =
     (if n < 16 then [''0123456789abcdef'' ! n]
      else format_x (n div 16) @ [''0123456789abcdef'' ! (n mod 16)])"
  by pat_completeness auto
termination
  by (relation "measure id") auto

text \<open>
  The middle of \<^verbatim>\<open>_BaseV6._ip_int_from_string\<close>: where the \<^verbatim>\<open>::\<close> is, and from
  it \<open>parts_hi\<close>, \<open>parts_lo\<close> and \<open>parts_skipped\<close>. The search for an empty part leaves
  out both ends; a second empty part is an error.
\<close>

definition v6_layout :: "string list \<Rightarrow> ip_error + nat \<times> nat \<times> nat" where
  "v6_layout parts =
     (let skips = filter (\<lambda>i. parts ! i = []) [1..<length parts - 1]
      in if length skips > 1 then Inl AddressValueError
         else if skips \<noteq> [] then
           (let skip_index = hd skips;
                parts_hi = (if hd parts = [] then skip_index - 1 else skip_index);
                parts_lo = (if last parts = [] then length parts - skip_index - 1 - 1
                            else length parts - skip_index - 1)
            in if hd parts = [] \<and> parts_hi \<noteq> 0 then Inl AddressValueError
               else if last parts = [] \<and> parts_lo \<noteq> 0 then Inl AddressValueError
               else if 8 \<le> parts_hi + parts_lo then Inl AddressValueError
               else Inr (parts_hi, parts_lo, 8 - (parts_hi + parts_lo)))
         else if length parts \<noteq> 8 then Inl AddressValueError
         else if hd parts = [] then Inl AddressValueError
         else if last parts = [] then Inl AddressValueError
         else Inr (length parts, 0, 0))"

text \<open>
  \<^verbatim>\<open>_BaseV6._ip_int_from_string\<close>: at least three parts, a dotted quad allowed as
  the last part and rewritten as two hextets, at most nine parts, then the layout and
  the hextets.
\<close>

definition v6_ip_int_from_string :: "string \<Rightarrow> ip_error + nat" where
  "v6_ip_int_from_string ip_str =
     (if ip_str = [] then Inl AddressValueError
      else
        (let parts0 = str_split '':'' ip_str
         in if length parts0 < 3 then Inl AddressValueError
            else
              (case (if CHR ''.'' \<in> set (last parts0)
                     then (case IPv4Address (last parts0) of
                             Inl e \<Rightarrow> Inl AddressValueError
                           | Inr ipv4_int \<Rightarrow>
                               Inr (butlast parts0 @
                                    [format_x (drop_bit 16 ipv4_int AND 65535),
                                     format_x (ipv4_int AND 65535)]))
                     else Inr parts0) of
                 Inl e \<Rightarrow> Inl e
               | Inr parts \<Rightarrow>
                   if length parts > 9 then Inl AddressValueError
                   else
                     (case v6_layout parts of
                        Inl e \<Rightarrow> Inl e
                      | Inr (parts_hi, parts_lo, parts_skipped) \<Rightarrow>
                          (case (those (map parse_hextet (take parts_hi parts)),
                                 those (map parse_hextet (drop (length parts - parts_lo) parts))) of
                             (Some his, Some los) \<Rightarrow>
                               Inr (foldl (\<lambda>n h. push_bit 16 n OR h)
                                      (push_bit (16 * parts_skipped)
                                         (foldl (\<lambda>n h. push_bit 16 n OR h) 0 his)) los)
                           | _ \<Rightarrow> Inl AddressValueError)))))"

text \<open>\<^verbatim>\<open>_split_scope_id\<close>: \<^verbatim>\<open>ip_str.partition('%')\<close>, the scope neither empty nor holding a percent sign.\<close>

definition split_scope_id :: "string \<Rightarrow> ip_error + string \<times> string option" where
  "split_scope_id ip_str =
     (let addr = takeWhile (\<lambda>c. c \<noteq> CHR ''%'') ip_str;
          rest = dropWhile (\<lambda>c. c \<noteq> CHR ''%'') ip_str
      in if rest = [] then Inr (addr, None)
         else if tl rest = [] \<or> CHR ''%'' \<in> set (tl rest) then Inl AddressValueError
         else Inr (addr, Some (tl rest)))"

text \<open>\<^verbatim>\<open>IPv6Address.__init__\<close> on a string.\<close>

definition IPv6Address :: "string \<Rightarrow> ip_error + nat" where
  "IPv6Address addr_str =
     (if CHR ''/'' \<in> set addr_str then Inl AddressValueError
      else (case split_scope_id addr_str of
              Inl e \<Rightarrow> Inl e
            | Inr (a, scope_id) \<Rightarrow> v6_ip_int_from_string a))"

text \<open>\<^verbatim>\<open>_BaseV6._make_netmask\<close> and \<^verbatim>\<open>IPv6Network.__init__\<close> with \<^verbatim>\<open>strict=True\<close>.\<close>

definition v6_make_netmask :: "string option \<Rightarrow> ip_error + nat" where
  "v6_make_netmask arg =
     (case arg of None \<Rightarrow> Inr 128 | Some a \<Rightarrow> prefix_from_prefix_string 128 a)"

definition IPv6Network :: "string \<Rightarrow> ip_error + nat \<times> nat" where
  "IPv6Network address =
     (case split_addr_prefix address of
        Inl e \<Rightarrow> Inl e
      | Inr (addr, msk) \<Rightarrow>
          (case IPv6Address addr of
             Inl e \<Rightarrow> Inl e
           | Inr packed \<Rightarrow>
               (case v6_make_netmask msk of
                  Inl e \<Rightarrow> Inl e
                | Inr prefixlen \<Rightarrow>
                    if packed AND ip_int_from_prefix 128 prefixlen \<noteq> packed
                    then Inl PlainValueError
                    else Inr (packed, prefixlen))))"

text \<open>
  \<^verbatim>\<open>ipaddress.ip_address\<close> and \<^verbatim>\<open>ipaddress.ip_network\<close>: version 4 first, version 6
  when version 4 raised one of the module's two exceptions; a plain \<^verbatim>\<open>ValueError\<close>
  (host bits set) is not caught.
\<close>

definition cpython_ip_address :: "string \<Rightarrow> ip_version option" where
  "cpython_ip_address address =
     (case IPv4Address address of
        Inr a \<Rightarrow> Some IPv4
      | Inl e \<Rightarrow> (case IPv6Address address of Inr a \<Rightarrow> Some IPv6 | Inl e' \<Rightarrow> None))"

definition cpython_ip_network :: "string \<Rightarrow> bool" where
  "cpython_ip_network address =
     (case IPv4Network address of
        Inr n \<Rightarrow> True
      | Inl PlainValueError \<Rightarrow> False
      | Inl e \<Rightarrow> (case IPv6Network address of Inr n \<Rightarrow> True | Inl e' \<Rightarrow> False))"

definition cpython :: ipaddress where
  "cpython = \<lparr>ip_network = cpython_ip_network, ip_address = cpython_ip_address\<rparr>"

subsection \<open>Two clients\<close>

text \<open>
  An inventory that answers every call: it keeps the created records in order, a
  \<^verbatim>\<open>get\<close> finds a record stored under exactly the key asked for, a \<^verbatim>\<open>create\<close>
  appends one.
\<close>

record inventory =
  inv_prefixes :: "(string \<times> string \<times> string) list"
  inv_ip_addresses :: "(string \<times> cell \<times> string \<times> string) list"

definition netbox_store :: "inventory pynetbox" where
  "netbox_store =
     \<lparr>prefixes_get = (\<lambda>k s. (Inr (k \<in> set (map fst (inv_prefixes s))), s)),
      prefixes_create = (\<lambda>k d st s. (Inr (), s\<lparr>inv_prefixes := inv_prefixes s @ [(k, d, st)]\<rparr>)),
      ip_addresses_get = (\<lambda>k s. (Inr (k \<in> set (map fst (inv_ip_addresses s))), s)),
      ip_addresses_create =
        (\<lambda>k h d st s. (Inr (), s\<lparr>inv_ip_addresses := inv_ip_addresses s @ [(k, h, d, st)]\<rparr>))\<rparr>"

definition empty_inventory :: inventory where
  "empty_inventory = \<lparr>inv_prefixes = [], inv_ip_addresses = []\<rparr>"

text \<open>
  A client whose every call raises \<open>e\<close>. pynetbox's \<^verbatim>\<open>Endpoint.get\<close> raises
  \<^verbatim>\<open>ValueError\<close> when the filter matches more than one record, and
  \<^verbatim>\<open>RequestError\<close> when the server rejects the request.
\<close>

definition raising :: "exn \<Rightarrow> unit pynetbox" where
  "raising e =
     \<lparr>prefixes_get = (\<lambda>k s. (Inl e, s)),
      prefixes_create = (\<lambda>k d st s. (Inl e, s)),
      ip_addresses_get = (\<lambda>k s. (Inl e, s)),
      ip_addresses_create = (\<lambda>k h d st s. (Inl e, s))\<rparr>"

section \<open>What the claims ask of the collaborators\<close>

text \<open>
  Three facts about \<^verbatim>\<open>ipaddress\<close> that the row rules rely on: the empty text is no
  network; a text with a slash is no address; the text \<^verbatim>\<open>ip address\<close>, in any
  letter case, is no address.
\<close>

definition ipaddress_contract :: "ipaddress \<Rightarrow> bool" where
  "ipaddress_contract lib \<longleftrightarrow>
     \<not> ip_network lib [] \<and>
     (\<forall>s. CHR ''/'' \<in> set s \<longrightarrow> ip_address lib s = None) \<and>
     (\<forall>s. lower s = ''ip address'' \<longrightarrow> ip_address lib s = None)"

text \<open>A \<^verbatim>\<open>get\<close> that returns a record, in the state \<open>s\<close> behind the client.\<close>

definition found_prefix :: "'s pynetbox \<Rightarrow> 's \<Rightarrow> string \<Rightarrow> bool" where
  "found_prefix c s k \<longleftrightarrow> fst (prefixes_get c k s) = Inr True"








section \<open>Facts about the importer\<close>

subsection \<open>The counters and the call list\<close>

lemma nb_incr: "nb (incr k w) = nb w"
  by (simp add: incr_def)

lemma calls_incr: "calls (incr k w) = calls w"
  by (simp add: incr_def)

lemma stats_incr: "stats (incr k w) = (stats w)(k := stats w k + 1)"
  by (simp add: incr_def)

subsection \<open>Two addresses evaluated\<close>

lemma cpython_10_1_8_5: "cpython_ip_address ''10.1.8.5'' = Some IPv4"
  by (simp add: cpython_ip_address_def IPv4Address_def v4_ip_int_from_string_def parse_octet_def
      ascii_digits_def int_of_decimal_def Let_def)

lemma cpython_not_an_ip: "cpython_ip_address ''not-an-ip'' = None"
  by (simp add: cpython_ip_address_def IPv4Address_def v4_ip_int_from_string_def parse_octet_def
      ascii_digits_def int_of_decimal_def Let_def IPv6Address_def split_scope_id_def
      v6_ip_int_from_string_def)

subsection \<open>A dry run\<close>

lemma create_prefix_dry_run: "create_prefix True c subnet description w = incr prefixes_created w"
  by (simp add: create_prefix_def)

lemma create_ip_address_dry_run:
  "create_ip_address True lib c ip hostname description mac owner device port note w =
     (if ip_address lib ip = None then w else incr ips_created w)"
  by (simp add: create_ip_address_def ip_handlers_def Let_def split: option.splits)

lemma apply_intent_dry_run:
  "apply_intent True lib c i w =
     (if is_subnet i then incr prefixes_created w
      else if is_valid_address lib i then incr ips_created w else w)"
  by (cases i) (simp_all add: create_prefix_dry_run create_ip_address_dry_run)

lemma reconcile_dry_run_frame:
  "nb (reconcile True lib c intents w) = nb w \<and> calls (reconcile True lib c intents w) = calls w"
  by (induction intents arbitrary: w) (simp_all add: apply_intent_dry_run nb_incr calls_incr)

lemma reconcile_dry_run_stats:
  "stats (reconcile True lib c intents w) =
     (stats w)(prefixes_created := stats w prefixes_created + int (length (filter is_subnet intents)),
               ips_created := stats w ips_created + int (length (filter (is_valid_address lib) intents)))"
proof (induction intents arbitrary: w)
  case Nil
  show ?case by (simp add: fun_eq_iff)
next
  case (Cons i intents)
  have sub: "is_subnet i \<Longrightarrow> \<not> is_valid_address lib i"
    by (cases i) simp_all
  show ?case
    using sub by (auto simp add: Cons.IH apply_intent_dry_run stats_incr fun_eq_iff)
qed

text \<open>
  Claim C6. With \<^verbatim>\<open>DRY_RUN\<close> set, whatever the intents and whatever the client, a run
  issues no call to the client (the call list and the state behind the client are
  what they were), every subnet intent adds one to \<open>prefixes_created\<close> and every
  address intent whose address is valid adds one to \<open>ips_created\<close>.
\<close>

theorem dry_run_issues_no_client_call:
  "calls (reconcile True lib c intents w) = calls w \<and>
   nb (reconcile True lib c intents w) = nb w \<and>
   stats (reconcile True lib c intents w) prefixes_created =
     stats w prefixes_created + int (length (filter is_subnet intents)) \<and>
   stats (reconcile True lib c intents w) ips_created =
     stats w ips_created + int (length (filter (is_valid_address lib) intents))"
  by (simp add: reconcile_dry_run_frame reconcile_dry_run_stats)

theorem dry_run_issues_no_client_call_witness:
  "calls (reconcile True cpython netbox_store
            [CreateSubnet ''10.1.8.0/24'' ''LAN'',
             CreateAddress ''10.1.8.5'' (Str ''host-a'') (Str ''Server A'') NaN NaN NaN NaN NaN,
             CreateAddress ''not-an-ip'' NaN NaN NaN NaN NaN NaN NaN]
            (init empty_inventory)) = [] \<and>
   nb (reconcile True cpython netbox_store
            [CreateSubnet ''10.1.8.0/24'' ''LAN'',
             CreateAddress ''10.1.8.5'' (Str ''host-a'') (Str ''Server A'') NaN NaN NaN NaN NaN,
             CreateAddress ''not-an-ip'' NaN NaN NaN NaN NaN NaN NaN]
            (init empty_inventory)) = empty_inventory \<and>
   stats (reconcile True cpython netbox_store
            [CreateSubnet ''10.1.8.0/24'' ''LAN'',
             CreateAddress ''10.1.8.5'' (Str ''host-a'') (Str ''Server A'') NaN NaN NaN NaN NaN,
             CreateAddress ''not-an-ip'' NaN NaN NaN NaN NaN NaN NaN]
            (init empty_inventory)) prefixes_created = 1 \<and>
   stats (reconcile True cpython netbox_store
            [CreateSubnet ''10.1.8.0/24'' ''LAN'',
             CreateAddress ''10.1.8.5'' (Str ''host-a'') (Str ''Server A'') NaN NaN NaN NaN NaN,
             CreateAddress ''not-an-ip'' NaN NaN NaN NaN NaN NaN NaN]
            (init empty_inventory)) ips_created = 1"
  using dry_run_issues_no_client_call [of cpython netbox_store
            "[CreateSubnet ''10.1.8.0/24'' ''LAN'',
             CreateAddress ''10.1.8.5'' (Str ''host-a'') (Str ''Server A'') NaN NaN NaN NaN NaN,
             CreateAddress ''not-an-ip'' NaN NaN NaN NaN NaN NaN NaN]" "init empty_inventory"]
  by (simp add: init_def cpython_def cpython_10_1_8_5 cpython_not_an_ip)

subsection \<open>Client calls and handlers\<close>

lemma fst_invoke: "fst (invoke cl f w) = fst (f (nb w))"
  by (simp add: invoke_def split: prod.splits)

lemma nb_invoke: "nb (snd (invoke cl f w)) = snd (f (nb w))"
  by (simp add: invoke_def split: prod.splits)

lemma calls_invoke: "calls (snd (invoke cl f w)) = calls w @ [cl]"
  by (simp add: invoke_def split: prod.splits)

lemma stats_invoke: "stats (snd (invoke cl f w)) = stats w"
  by (simp add: invoke_def split: prod.splits)

lemma calls_ip_handlers: "calls (ip_handlers e w) = calls w"
  by (simp add: ip_handlers_def calls_incr)

lemma nb_ip_handlers: "nb (ip_handlers e w) = nb w"
  by (simp add: ip_handlers_def nb_incr)

lemma create_ip_address_apply:
  assumes "ip_address lib ip = Some version"
  shows "create_ip_address False lib c ip hostname description mac owner device port note w =
     (let key = ip_with_mask ip version;
          g = invoke (IpAddressesGet key) (ip_addresses_get c key) w
      in case fst g of
           Inl e \<Rightarrow> ip_handlers e (snd g)
         | Inr existing \<Rightarrow>
             if existing then incr ips_skipped (snd g)
             else
               (let dns_name = (if notna hostname then hostname else Str []);
                    d = take 200 (full_description description note);
                    r = invoke (IpAddressesCreate key dns_name d ''active'')
                          (ip_addresses_create c key dns_name d ''active'') (snd g)
                in case fst r of
                     Inl e \<Rightarrow> ip_handlers e (snd r)
                   | Inr u \<Rightarrow> incr ips_created (snd r)))"
  using assms
  by (simp add: create_ip_address_def Let_def split: prod.splits sum.splits)

lemma create_prefix_apply:
  "create_prefix False c subnet description w =
     (let g = invoke (PrefixesGet subnet) (prefixes_get c subnet) w
      in case fst g of
           Inl e \<Rightarrow> incr errors (snd g)
         | Inr existing \<Rightarrow>
             if existing then incr prefixes_skipped (snd g)
             else
               (let d = take 200 description;
                    r = invoke (PrefixesCreate subnet d ''active'')
                          (prefixes_create c subnet d ''active'') (snd g)
                in case fst r of
                     Inl e \<Rightarrow> incr errors (snd r)
                   | Inr u \<Rightarrow> incr prefixes_created (snd r)))"
  by (simp add: create_prefix_def Let_def split: prod.splits sum.splits)


text \<open>
  Claim C10. With \<^verbatim>\<open>DRY_RUN\<close> set the lookups are never made, so whatever the
  inventory holds, \<open>prefixes_skipped\<close> and \<open>ips_skipped\<close> keep their value (zero for a
  fresh importer): the only counters a run changes are the two created counters, one
  for each subnet intent and one for each valid address intent, also when the record
  already exists.
\<close>

theorem dry_run_never_skips:
  "stats (reconcile True lib c intents w) =
     (stats w)(prefixes_created := stats w prefixes_created + int (length (filter is_subnet intents)),
               ips_created := stats w ips_created + int (length (filter (is_valid_address lib) intents))) \<and>
   stats (reconcile True lib c intents w) prefixes_skipped = stats w prefixes_skipped \<and>
   stats (reconcile True lib c intents w) ips_skipped = stats w ips_skipped \<and>
   stats (reconcile True lib c intents (init s)) prefixes_skipped = 0 \<and>
   stats (reconcile True lib c intents (init s)) ips_skipped = 0"
  by (simp add: reconcile_dry_run_stats init_def)

theorem dry_run_never_skips_witness:
  "found_prefix netbox_store \<lparr>inv_prefixes = [(''10.1.8.0/24'', ''LAN'', ''active'')], inv_ip_addresses = []\<rparr>
     ''10.1.8.0/24'' \<and>
   stats (reconcile True cpython netbox_store [CreateSubnet ''10.1.8.0/24'' ''LAN'']
     (init \<lparr>inv_prefixes = [(''10.1.8.0/24'', ''LAN'', ''active'')], inv_ip_addresses = []\<rparr>))
     prefixes_skipped = 0 \<and>
   stats (reconcile True cpython netbox_store [CreateSubnet ''10.1.8.0/24'' ''LAN'']
     (init \<lparr>inv_prefixes = [(''10.1.8.0/24'', ''LAN'', ''active'')], inv_ip_addresses = []\<rparr>))
     prefixes_created = 1"
  using dry_run_never_skips [of cpython netbox_store "[CreateSubnet ''10.1.8.0/24'' ''LAN'']"
     "init \<lparr>inv_prefixes = [(''10.1.8.0/24'', ''LAN'', ''active'')], inv_ip_addresses = []\<rparr>"]
  by (simp add: init_def found_prefix_def netbox_store_def)

subsection \<open>A run that applies\<close>


lemma nb_create_ip_address:
  assumes "ip_address lib ip = Some version"
  shows "nb (create_ip_address False lib c ip hostname description mac owner device port note w) =
     (if fst (ip_addresses_get c (ip_with_mask ip version) (nb w)) = Inr False
      then snd (ip_addresses_create c (ip_with_mask ip version)
                  (if notna hostname then hostname else Str [])
                  (take 200 (full_description description note)) ''active''
                  (snd (ip_addresses_get c (ip_with_mask ip version) (nb w))))
      else snd (ip_addresses_get c (ip_with_mask ip version) (nb w)))"
proof (cases "fst (ip_addresses_get c (ip_with_mask ip version) (nb w))")
  case (Inl e)
  then show ?thesis
    by (simp add: create_ip_address_apply [OF assms] Let_def fst_invoke nb_invoke nb_ip_handlers)
next
  case (Inr existing)
  then show ?thesis
    by (simp add: create_ip_address_apply [OF assms] Let_def fst_invoke nb_invoke nb_incr
        nb_ip_handlers split: sum.splits)
qed

lemma calls_create_ip_address:
  assumes "ip_address lib ip = Some version"
  shows "calls (create_ip_address False lib c ip hostname description mac owner device port note w) =
           calls w @
           IpAddressesGet (ip_with_mask ip version) #
           (if fst (ip_addresses_get c (ip_with_mask ip version) (nb w)) = Inr False
            then [IpAddressesCreate (ip_with_mask ip version)
                    (if notna hostname then hostname else Str [])
                    (take 200 (full_description description note)) ''active'']
            else [])"
proof (cases "fst (ip_addresses_get c (ip_with_mask ip version) (nb w))")
  case (Inl e)
  then show ?thesis
    by (simp add: create_ip_address_apply [OF assms] Let_def fst_invoke calls_invoke
        calls_ip_handlers)
next
  case (Inr existing)
  then show ?thesis
    by (simp add: create_ip_address_apply [OF assms] Let_def fst_invoke calls_invoke
        calls_ip_handlers calls_incr split: sum.splits)
qed


lemma cpython_2001_db8_1: "cpython_ip_address ''2001:db8::1'' = Some IPv6"
  by (simp add: cpython_ip_address_def IPv4Address_def v4_ip_int_from_string_def parse_octet_def
      ascii_digits_def int_of_decimal_def Let_def IPv6Address_def split_scope_id_def
      v6_ip_int_from_string_def v6_layout_def parse_hextet_def hex_value_def)

text \<open>
  Claim C4. For an address that \<^verbatim>\<open>ip_address\<close> accepts, with \<^verbatim>\<open>DRY_RUN\<close> off,
  \<^verbatim>\<open>create_ip_address\<close> hands the client one key, the address followed by \<^verbatim>\<open>/32\<close>
  (version 4) or \<^verbatim>\<open>/128\<close> (version 6). Whatever the client is, the state behind it
  after the call is the state its \<^verbatim>\<open>get\<close> leaves when asked for that key and, when
  that \<^verbatim>\<open>get\<close> returns no record, the state its \<^verbatim>\<open>create\<close> then leaves when given
  the same key as the address of the new record. The list of calls says the same.
\<close>

theorem lookup_key_full_length_mask:
  assumes "ip_address lib ip = Some version"
  shows "(let key = ip @ (if version = IPv4 then ''/32'' else ''/128'');
              looked_up = ip_addresses_get c key (nb w)
          in nb (create_ip_address False lib c ip hostname description mac owner device port note w) =
               (if fst looked_up = Inr False
                then snd (ip_addresses_create c key (if notna hostname then hostname else Str [])
                            (take 200 (full_description description note)) ''active'' (snd looked_up))
                else snd looked_up) \<and>
             calls (create_ip_address False lib c ip hostname description mac owner device port note w) =
               calls w @
               IpAddressesGet key #
               (if fst looked_up = Inr False
                then [IpAddressesCreate key (if notna hostname then hostname else Str [])
                        (take 200 (full_description description note)) ''active'']
                else []))"
proof -
  have key: "ip @ (if version = IPv4 then ''/32'' else ''/128'') = ip_with_mask ip version"
    by (simp add: ip_with_mask_def)
  show ?thesis
    unfolding Let_def key
    using nb_create_ip_address [OF assms] calls_create_ip_address [OF assms] by blast
qed

theorem lookup_key_full_length_mask_witness:
  "inv_ip_addresses (nb (create_ip_address False cpython netbox_store ''10.1.8.5'' (Str ''host-a'')
       (Str ''Server A'') NaN NaN NaN NaN NaN (init empty_inventory))) =
     [(''10.1.8.5/32'', Str ''host-a'', ''Server A'', ''active'')] \<and>
   inv_ip_addresses (nb (create_ip_address False cpython netbox_store ''2001:db8::1'' NaN NaN
       NaN NaN NaN NaN NaN (init empty_inventory))) =
     [(''2001:db8::1/128'', Str [], [], ''active'')] \<and>
   inv_ip_addresses (nb (create_ip_address False cpython netbox_store ''10.1.8.5'' (Str ''host-a'')
       (Str ''Server A'') NaN NaN NaN NaN NaN
       (init \<lparr>inv_prefixes = [], inv_ip_addresses = [(''10.1.8.5/32'', Str ''old'', ''kept'', ''active'')]\<rparr>))) =
     [(''10.1.8.5/32'', Str ''old'', ''kept'', ''active'')] \<and>
   inv_ip_addresses (nb (create_ip_address False cpython netbox_store ''10.1.8.5'' (Str ''host-a'')
       (Str ''Server A'') NaN NaN NaN NaN NaN
       (init \<lparr>inv_prefixes = [], inv_ip_addresses = [(''10.1.8.5'', Str ''old'', ''kept'', ''active'')]\<rparr>))) =
     [(''10.1.8.5'', Str ''old'', ''kept'', ''active''),
      (''10.1.8.5/32'', Str ''host-a'', ''Server A'', ''active'')] \<and>
   calls (create_ip_address False cpython netbox_store ''10.1.8.5'' (Str ''host-a'') (Str ''Server A'')
            NaN NaN NaN NaN NaN (init empty_inventory)) =
     [IpAddressesGet ''10.1.8.5/32'',
      IpAddressesCreate ''10.1.8.5/32'' (Str ''host-a'') ''Server A'' ''active''] \<and>
   calls (create_ip_address False cpython netbox_store ''2001:db8::1'' NaN NaN
            NaN NaN NaN NaN NaN (init empty_inventory)) =
     [IpAddressesGet ''2001:db8::1/128'',
      IpAddressesCreate ''2001:db8::1/128'' (Str []) [] ''active'']"
  using lookup_key_full_length_mask [of cpython "''10.1.8.5''" IPv4 netbox_store "init empty_inventory"
          "Str ''host-a''" "Str ''Server A''" NaN NaN NaN NaN NaN]
        lookup_key_full_length_mask [of cpython "''2001:db8::1''" IPv6 netbox_store "init empty_inventory"
          NaN NaN NaN NaN NaN NaN NaN]
        lookup_key_full_length_mask [of cpython "''10.1.8.5''" IPv4 netbox_store
          "init \<lparr>inv_prefixes = [], inv_ip_addresses = [(''10.1.8.5/32'', Str ''old'', ''kept'', ''active'')]\<rparr>"
          "Str ''host-a''" "Str ''Server A''" NaN NaN NaN NaN NaN]
        lookup_key_full_length_mask [of cpython "''10.1.8.5''" IPv4 netbox_store
          "init \<lparr>inv_prefixes = [], inv_ip_addresses = [(''10.1.8.5'', Str ''old'', ''kept'', ''active'')]\<rparr>"
          "Str ''host-a''" "Str ''Server A''" NaN NaN NaN NaN NaN]
  by (simp add: cpython_def cpython_10_1_8_5 cpython_2001_db8_1 netbox_store_def init_def
      empty_inventory_def full_description_def Let_def)







lemma create_prefix_counts_every_failure:
  "fst (prefixes_get c subnet (nb w)) = Inl e \<Longrightarrow>
   stats (create_prefix False c subnet description w) = (stats w)(errors := stats w errors + 1)"
  by (simp add: create_prefix_apply Let_def fst_invoke stats_invoke stats_incr)

lemma create_ip_address_swallows_ValueError:
  "ip_address lib ip = Some version \<Longrightarrow>
   fst (ip_addresses_get c (ip_with_mask ip version) (nb w)) = Inl ValueError \<Longrightarrow>
   stats (create_ip_address False lib c ip hostname description mac owner device port note w) = stats w"
  by (simp add: create_ip_address_apply Let_def fst_invoke stats_invoke ip_handlers_def)

lemma create_ip_address_counts_other_failures:
  "ip_address lib ip = Some version \<Longrightarrow>
   fst (ip_addresses_get c (ip_with_mask ip version) (nb w)) = Inl e \<Longrightarrow> e \<noteq> ValueError \<Longrightarrow>
   stats (create_ip_address False lib c ip hostname description mac owner device port note w) =
     (stats w)(errors := stats w errors + 1)"
  by (simp add: create_ip_address_apply Let_def fst_invoke stats_invoke ip_handlers_def stats_incr)

text \<open>
  Claim C7. A failure of the client is to add one to \<open>errors\<close>. \<^verbatim>\<open>create_prefix\<close>
  does so for every exception. \<^verbatim>\<open>create_ip_address\<close> does not when the client raises
  \<^verbatim>\<open>ValueError\<close>: its first handler, written for an invalid address, also catches
  the client's \<^verbatim>\<open>ValueError\<close> (pynetbox raises it when a \<^verbatim>\<open>get\<close> matches more than
  one record) and passes. Evaluated on address \<^verbatim>\<open>10.1.8.5\<close>: \<open>errors\<close> stays at 0
  after the failed \<^verbatim>\<open>get\<close>, where a \<^verbatim>\<open>RequestError\<close> and the same failure in
  \<^verbatim>\<open>create_prefix\<close> give 1.
\<close>

theorem client_ValueError_not_counted:
  "stats (create_ip_address False cpython (raising ValueError) ''10.1.8.5'' (Str ''host-a'')
            (Str ''Server A'') NaN NaN NaN NaN NaN (init ())) errors = 0 \<and>
   calls (create_ip_address False cpython (raising ValueError) ''10.1.8.5'' (Str ''host-a'')
            (Str ''Server A'') NaN NaN NaN NaN NaN (init ())) = [IpAddressesGet ''10.1.8.5/32''] \<and>
   stats (create_ip_address False cpython (raising RequestError) ''10.1.8.5'' (Str ''host-a'')
            (Str ''Server A'') NaN NaN NaN NaN NaN (init ())) errors = 1 \<and>
   stats (create_prefix False (raising ValueError) ''10.1.8.0/24'' ''LAN'' (init ())) errors = 1"
proof -
  have ip: "ip_address cpython ''10.1.8.5'' = Some IPv4"
    by (simp add: cpython_def cpython_10_1_8_5)
  show ?thesis
    by (simp add: create_ip_address_apply [OF ip] create_prefix_apply Let_def fst_invoke
        stats_invoke calls_invoke calls_ip_handlers ip_handlers_def stats_incr raising_def
        init_def ip_with_mask_def)
qed

section \<open>Facts about the rows\<close>

subsection \<open>Strings\<close>

lemma str_split_not_Nil: "str_split sep s \<noteq> []"
  by (induction sep s rule: str_split.induct) (simp_all add: Let_def)

lemma str_split_without_separator: "c \<notin> set s \<Longrightarrow> str_split [c] s = [s]"
  by (induction s) (auto simp add: Let_def)

lemma mem_dropWhile: "x \<in> set xs \<Longrightarrow> \<not> P x \<Longrightarrow> x \<in> set (dropWhile P xs)"
  by (induction xs) auto

lemma mem_strip: "x \<in> set s \<Longrightarrow> \<not> isspace x \<Longrightarrow> x \<in> set (strip s)"
  by (simp add: strip_def mem_dropWhile)

lemma mem_lower: "c \<in> set s \<Longrightarrow> lower_char c = c \<Longrightarrow> c \<in> set (lower s)"
  by (force simp add: lower_def)

lemma isspace_lower_char: "isspace c \<Longrightarrow> lower_char c = c"
  by (auto simp add: isspace_def lower_char_def Let_def)

lemma strip_unchanged:
  assumes "s \<noteq> []" "\<not> isspace (hd s)" "\<not> isspace (last s)"
  shows "strip s = s"
proof -
  have "dropWhile isspace s = s"
    using assms by (simp add: dropWhile_eq_self_iff)
  moreover have "dropWhile isspace (rev s) = rev s"
    using assms by (simp add: dropWhile_eq_self_iff hd_rev)
  ultimately show ?thesis
    by (simp add: strip_def)
qed

lemma lower_ip_address_ends:
  assumes "lower s = ''ip address''"
  shows "s \<noteq> [] \<and> lower_char (hd s) = CHR ''i'' \<and> lower_char (last s) = CHR ''s''"
proof -
  have ne: "s \<noteq> []"
    using assms by (auto simp add: lower_def)
  have "hd (lower s) = lower_char (hd s)" "last (lower s) = lower_char (last s)"
    using ne by (simp_all add: lower_def hd_map last_map)
  then show ?thesis
    using ne assms by simp
qed

lemma strip_ip_address: "lower s = ''ip address'' \<Longrightarrow> strip s = s"
proof -
  assume l: "lower s = ''ip address''"
  have i: "\<not> isspace CHR ''i''" and e: "\<not> isspace CHR ''s''"
    by (simp_all add: isspace_def)
  from lower_ip_address_ends [OF l] have ne: "s \<noteq> []"
    and h: "lower_char (hd s) = CHR ''i''" and t: "lower_char (last s) = CHR ''s''"
    by simp_all
  have "\<not> isspace (hd s)"
    using h i isspace_lower_char [of "hd s"] by auto
  moreover have "\<not> isspace (last s)"
    using t e isspace_lower_char [of "last s"] by auto
  ultimately show "strip s = s"
    using ne by (simp add: strip_unchanged)
qed

lemma lower_ip_address_chars:
  "lower s = ''ip address'' \<Longrightarrow> c \<in> set s \<Longrightarrow> lower_char c = c \<Longrightarrow> c \<in> set ''ip address''"
  using mem_lower [of c s] by simp

lemma lower_ip_address_punctuation:
  assumes "lower s = ''ip address''"
  shows "CHR ''/'' \<notin> set s \<and> CHR ''.'' \<notin> set s \<and> CHR '':'' \<notin> set s \<and> CHR ''%'' \<notin> set s"
proof -
  have "lower_char CHR ''/'' = CHR ''/''" "lower_char CHR ''.'' = CHR ''.''"
    "lower_char CHR '':'' = CHR '':''" "lower_char CHR ''%'' = CHR ''%''"
    by (simp_all add: lower_char_def)
  then show ?thesis
    using lower_ip_address_chars [OF assms, of "CHR ''/''"]
      lower_ip_address_chars [OF assms, of "CHR ''.''"]
      lower_ip_address_chars [OF assms, of "CHR '':''"]
      lower_ip_address_chars [OF assms, of "CHR ''%''"]
    by auto
qed

subsection \<open>CPython's module keeps the contract\<close>

lemma cpython_rejects_slash: "CHR ''/'' \<in> set s \<Longrightarrow> cpython_ip_address s = None"
  by (simp add: cpython_ip_address_def IPv4Address_def IPv6Address_def)

lemma cpython_rejects_ip_address:
  assumes "lower s = ''ip address''"
  shows "cpython_ip_address s = None"
proof -
  from lower_ip_address_punctuation [OF assms]
  have sl: "CHR ''/'' \<notin> set s" and dot: "CHR ''.'' \<notin> set s" and col: "CHR '':'' \<notin> set s"
    and pc: "CHR ''%'' \<notin> set s"
    by simp_all
  have ne: "s \<noteq> []"
    using lower_ip_address_ends [OF assms] by simp
  have v4: "IPv4Address s = Inl AddressValueError"
    using sl ne by (simp add: IPv4Address_def v4_ip_int_from_string_def
        str_split_without_separator [OF dot])
  have tw: "takeWhile (\<lambda>c. c \<noteq> CHR ''%'') s = s" and dw: "dropWhile (\<lambda>c. c \<noteq> CHR ''%'') s = []"
    using pc by (auto simp add: takeWhile_eq_all_conv)
  have v6: "IPv6Address s = Inl AddressValueError"
    using sl ne by (simp add: IPv6Address_def split_scope_id_def tw dw v6_ip_int_from_string_def
        str_split_without_separator [OF col])
  show ?thesis
    by (simp add: cpython_ip_address_def v4 v6)
qed

lemma cpython_rejects_empty_network: "\<not> cpython_ip_network []"
  by (simp add: cpython_ip_network_def IPv4Network_def IPv6Network_def split_addr_prefix_def
      IPv4Address_def IPv6Address_def v4_ip_int_from_string_def v6_ip_int_from_string_def
      split_scope_id_def)

lemma cpython_contract: "ipaddress_contract cpython"
  by (simp add: ipaddress_contract_def cpython_def cpython_rejects_empty_network
      cpython_rejects_slash cpython_rejects_ip_address)

lemmas cpython_network_defs =
  cpython_ip_network_def IPv4Network_def split_addr_prefix_def IPv4Address_def
  v4_ip_int_from_string_def parse_octet_def ascii_digits_def int_of_decimal_def
  v4_make_netmask_def prefix_from_prefix_string_def ip_int_from_prefix_def Let_def

lemma cpython_network_10_0_0_0_8: "cpython_ip_network ''10.0.0.0/8''"
  by (simp add: cpython_network_defs)

lemma cpython_network_10_1_8_0_24: "cpython_ip_network ''10.1.8.0/24''"
  by (simp add: cpython_network_defs)

lemma cpython_network_leading_space: "\<not> cpython_ip_network '' 10.0.0.0/8''"
  by (simp add: cpython_network_defs IPv6Network_def IPv6Address_def split_scope_id_def
      v6_ip_int_from_string_def)

subsection \<open>Subnet headers\<close>

lemma parse_subnet_header_Str:
  "parse_subnet_header lib (Str h) =
     (if CHR ''/'' \<in> set h \<and> 2 \<le> length (str_split '' - '' h) \<and>
         ip_network lib (strip (hd (str_split '' - '' h)))
      then Some (strip (hd (str_split '' - '' h)), str_join '' - '' (tl (str_split '' - '' h)))
      else None)"
  by (auto simp add: parse_subnet_header_def Let_def)

lemma slash_not_column_title: "CHR ''/'' \<in> set h \<Longrightarrow> lower h \<noteq> ''ip address''"
  using lower_ip_address_punctuation [of h] by auto

lemma classify_with_slash:
  assumes "ipaddress_contract lib" and "CHR ''/'' \<in> set h"
  shows "classify lib (Str h # rest) =
     Inr (if 2 \<le> length (str_split '' - '' h) \<and> ip_network lib (strip (hd (str_split '' - '' h)))
          then SubnetHeader (strip (hd (str_split '' - '' h)))
                 (str_join '' - '' (tl (str_split '' - '' h)))
          else Noise)"
proof -
  have empty: "\<not> ip_network lib []"
    and slash: "\<And>s. CHR ''/'' \<in> set s \<Longrightarrow> ip_address lib s = None"
    using assms(1) by (simp_all add: ipaddress_contract_def)
  have "\<not> isspace CHR ''/''"
    by (simp add: isspace_def)
  then have no_address: "ip_address lib (strip h) = None"
    using assms(2) by (simp add: slash mem_strip)
  have no_title: "lower h \<noteq> ''ip address''"
    using assms(2) by (rule slash_not_column_title)
  show ?thesis
  proof (cases "2 \<le> length (str_split '' - '' h) \<and> ip_network lib (strip (hd (str_split '' - '' h)))")
    case True
    then have "strip (hd (str_split '' - '' h)) \<noteq> []"
      using empty by auto
    then show ?thesis
      using True assms(2) by (simp add: classify_def parse_subnet_header_Str)
  next
    case False
    then have "parse_subnet_header lib (Str h) = None"
      by (auto simp add: parse_subnet_header_Str)
    then show ?thesis
      using False no_address no_title by (simp add: classify_def)
  qed
qed

lemma split_header_example:
  "str_split '' - '' ''10.1.8.0/24 - CTRL-W27-04-LANtime (vlan: 108)'' =
     [''10.1.8.0/24'', ''CTRL-W27-04-LANtime (vlan: 108)'']"
  by (simp add: Let_def)

text \<open>
  Claim C2, amended. A first cell that is a string with a slash is cut at \<^verbatim>\<open> - \<close>.
  When there are at least two segments and the first one, stripped of surrounding
  whitespace, is a network for \<^verbatim>\<open>ip_network\<close>, the row is a subnet header whose
  subnet is that stripped segment and whose description is the other segments joined
  again by \<^verbatim>\<open> - \<close>. Otherwise (no separator, or no network) the row falls through,
  and since a text with a slash is neither the column title nor an address, it is
  noise.
\<close>

theorem subnet_header_needs_separator:
  assumes "ipaddress_contract lib" and "CHR ''/'' \<in> set h"
  shows "classify lib (Str h # rest) =
     Inr (if 2 \<le> length (str_split '' - '' h) \<and> ip_network lib (strip (hd (str_split '' - '' h)))
          then SubnetHeader (strip (hd (str_split '' - '' h)))
                 (str_join '' - '' (tl (str_split '' - '' h)))
          else Noise)"
  using assms by (rule classify_with_slash)

theorem subnet_header_needs_separator_witness:
  "classify cpython [Str ''10.1.8.0/24 - CTRL-W27-04-LANtime (vlan: 108)''] =
     Inr (SubnetHeader ''10.1.8.0/24'' ''CTRL-W27-04-LANtime (vlan: 108)'')"
  using subnet_header_needs_separator [OF cpython_contract,
      of "''10.1.8.0/24 - CTRL-W27-04-LANtime (vlan: 108)''" "[]"]
  by (simp add: split_header_example strip_def isspace_def cpython_def cpython_network_10_1_8_0_24)

text \<open>
  Claim C2 as stated fails twice. The cell \<^verbatim>\<open>10.0.0.0/8\<close> has a slash and its first
  (only) segment is a network, yet the row is noise: line 79 asks for a separator.
  The cell \<^verbatim>\<open> 10.0.0.0/8 - LAN\<close> has a first segment that is no network (it starts
  with a space), yet the row is a subnet header: line 82 strips the segment first.
\<close>

theorem subnet_header_counterexample:
  "CHR ''/'' \<in> set ''10.0.0.0/8'' \<and>
   ip_network cpython (hd (str_split '' - '' ''10.0.0.0/8'')) \<and>
   classify cpython [Str ''10.0.0.0/8''] = Inr Noise \<and>
   CHR ''/'' \<in> set '' 10.0.0.0/8 - LAN'' \<and>
   \<not> ip_network cpython (hd (str_split '' - '' '' 10.0.0.0/8 - LAN'')) \<and>
   classify cpython [Str '' 10.0.0.0/8 - LAN''] = Inr (SubnetHeader ''10.0.0.0/8'' ''LAN'')"
proof -
  have a: "str_split '' - '' ''10.0.0.0/8'' = [''10.0.0.0/8'']"
    by (simp add: Let_def)
  have b: "str_split '' - '' '' 10.0.0.0/8 - LAN'' = ['' 10.0.0.0/8'', ''LAN'']"
    by (simp add: Let_def)
  have s: "strip '' 10.0.0.0/8'' = ''10.0.0.0/8''"
    by (simp add: strip_def isspace_def)
  have n: "ip_network cpython ''10.0.0.0/8''" "\<not> ip_network cpython '' 10.0.0.0/8''"
    by (simp_all add: cpython_def cpython_network_10_0_0_0_8 cpython_network_leading_space)
  have c1: "classify cpython [Str ''10.0.0.0/8''] = Inr Noise"
    using classify_with_slash [OF cpython_contract, of "''10.0.0.0/8''" "[]"]
    by (simp add: a)
  have c2: "classify cpython [Str '' 10.0.0.0/8 - LAN''] = Inr (SubnetHeader ''10.0.0.0/8'' ''LAN'')"
    using classify_with_slash [OF cpython_contract, of "'' 10.0.0.0/8 - LAN''" "[]"]
    by (simp add: b s n)
  show ?thesis
    using c1 c2 n by (simp add: a b)
qed

subsection \<open>Address rows\<close>

lemma valid_address_not_header:
  assumes "ipaddress_contract lib" and "ip_address lib (strip s) = Some version"
  shows "parse_subnet_header lib (Str s) = None \<and> lower s \<noteq> ''ip address''"
proof -
  have slash: "\<And>t. CHR ''/'' \<in> set t \<Longrightarrow> ip_address lib t = None"
    and title: "\<And>t. lower t = ''ip address'' \<Longrightarrow> ip_address lib t = None"
    using assms(1) by (simp_all add: ipaddress_contract_def)
  have sp: "\<not> isspace CHR ''/''"
    by (simp add: isspace_def)
  have "CHR ''/'' \<notin> set s"
    using assms(2) slash [of "strip s"] mem_strip [OF _ sp, of s] by auto
  moreover have "lower s \<noteq> ''ip address''"
    using assms(2) title [of s] strip_ip_address [of s] by auto
  ultimately show ?thesis
    by (simp add: parse_subnet_header_Str)
qed

lemma classify_address:
  assumes "ipaddress_contract lib" and "notna first_col"
    and "ip_address lib (strip (py_str first_col)) = Some version"
  shows "classify lib (first_col # rest) =
     Inr (AddressData (strip (py_str first_col))
            (iloc_or_none (first_col # rest) 1) (iloc_or_none (first_col # rest) 2)
            (iloc_or_none (first_col # rest) 3) (iloc_or_none (first_col # rest) 4)
            (iloc_or_none (first_col # rest) 5) (iloc_or_none (first_col # rest) 6)
            (iloc_or_none (first_col # rest) 7) (iloc_or_none (first_col # rest) 8))"
proof (cases first_col)
  case (Str s)
  then show ?thesis
    using assms valid_address_not_header [OF assms(1), of s version]
    by (simp add: classify_def)
next
  case NaN
  then show ?thesis using assms by simp
next
  case PyNone
  then show ?thesis using assms by simp
next
  case (Other s b)
  then show ?thesis
    using assms by (simp add: classify_def)
qed

text \<open>
  Claim C3. A row whose first cell is not null and whose text, stripped, is an address
  for \<^verbatim>\<open>ip_address\<close> is an address row: the address is the stripped text and the
  eight fields are the cells at positions 1 to 8, in that order; a position the row
  does not have gives \<^verbatim>\<open>None\<close>, never an error.
\<close>

theorem address_row_read_by_position:
  assumes "ipaddress_contract lib" and "notna first_col"
    and "ip_address lib (strip (py_str first_col)) = Some version"
  shows "classify lib (first_col # rest) =
     Inr (AddressData (strip (py_str first_col))
            (iloc_or_none (first_col # rest) 1) (iloc_or_none (first_col # rest) 2)
            (iloc_or_none (first_col # rest) 3) (iloc_or_none (first_col # rest) 4)
            (iloc_or_none (first_col # rest) 5) (iloc_or_none (first_col # rest) 6)
            (iloc_or_none (first_col # rest) 7) (iloc_or_none (first_col # rest) 8)) \<and>
   (\<forall>k. iloc_or_none (first_col # rest) k =
          (if k < length (first_col # rest) then (first_col # rest) ! k else PyNone))"
  using classify_address [OF assms] by (simp add: iloc_or_none_def)

theorem address_row_read_by_position_witness:
  "classify cpython [Str ''10.1.8.5'', Str ''Used'', Str ''Server A'', Str ''host-a'',
                     Str [], Str [], Str [], Str [], Str []] =
     Inr (AddressData ''10.1.8.5'' (Str ''Used'') (Str ''Server A'') (Str ''host-a'')
            (Str []) (Str []) (Str []) (Str []) (Str [])) \<and>
   classify cpython [Str '' 10.1.8.5 '', Str ''Used'', NaN] =
     Inr (AddressData ''10.1.8.5'' (Str ''Used'') NaN PyNone PyNone PyNone PyNone PyNone PyNone)"
proof -
  have s: "strip ''10.1.8.5'' = ''10.1.8.5''" "strip '' 10.1.8.5 '' = ''10.1.8.5''"
    by (simp_all add: strip_def isspace_def)
  have ip: "ip_address cpython ''10.1.8.5'' = Some IPv4"
    by (simp add: cpython_def cpython_10_1_8_5)
  show ?thesis
    using address_row_read_by_position [OF cpython_contract, of "Str ''10.1.8.5''" IPv4
        "[Str ''Used'', Str ''Server A'', Str ''host-a'', Str [], Str [], Str [], Str [], Str []]"]
      address_row_read_by_position [OF cpython_contract, of "Str '' 10.1.8.5 ''" IPv4
        "[Str ''Used'', NaN]"]
    by (simp add: s ip iloc_or_none_def)
qed

subsection \<open>The column title\<close>

lemma classify_column_title:
  assumes "ipaddress_contract lib" and "lower (strip s) = ''ip address''"
  shows "classify lib (Str s # rest) = Inr (if lower s = ''ip address'' then ColumnTitle else Noise)"
proof -
  have title: "\<And>t. lower t = ''ip address'' \<Longrightarrow> ip_address lib t = None"
    using assms(1) by (simp add: ipaddress_contract_def)
  have sp: "\<not> isspace CHR ''/''"
    by (simp add: isspace_def)
  have "CHR ''/'' \<notin> set (strip s)"
    using lower_ip_address_punctuation [OF assms(2)] by simp
  then have "CHR ''/'' \<notin> set s"
    using mem_strip [OF _ sp, of s] by auto
  then have "parse_subnet_header lib (Str s) = None"
    by (simp add: parse_subnet_header_Str)
  then show ?thesis
    using title [OF assms(2)] by (simp add: classify_def)
qed

lemma process_row_no_intent:
  "classify lib row = Inr ColumnTitle \<or> classify lib row = Inr Noise \<Longrightarrow>
   process_row dry_run lib c row (cur, w) = Inr (cur, w)"
  by (auto simp add: process_row_def)

text \<open>
  Claim C8, amended. The column-title test compares \<^verbatim>\<open>first_col.lower()\<close> with
  \<^verbatim>\<open>ip address\<close> and does not strip. A first cell equal to it in any letter case is a
  column title. A first cell equal to it only after stripping is not: it reaches the
  address test, where the stripped text is no address, and is noise. Either way the
  row emits no intent, changes no counter and leaves the current subnet as it was.
\<close>

theorem column_title_row_does_nothing:
  assumes "ipaddress_contract lib" and "lower (strip s) = ''ip address''"
  shows "classify lib (Str s # rest) = Inr (if lower s = ''ip address'' then ColumnTitle else Noise) \<and>
         process_row dry_run lib c (Str s # rest) (cur, w) = Inr (cur, w)"
  using classify_column_title [OF assms, of rest]
    process_row_no_intent [of lib "Str s # rest" dry_run c cur w]
  by (simp split: if_splits)

theorem column_title_row_does_nothing_witness:
  "classify cpython [Str ''IP Address'', Str ''State''] = Inr ColumnTitle \<and>
   process_row False cpython netbox_store [Str ''IP Address'', Str ''State'']
     (Some (''10.1.8.0/24'', ''LAN''), init empty_inventory) =
     Inr (Some (''10.1.8.0/24'', ''LAN''), init empty_inventory) \<and>
   process_row False cpython netbox_store [Str '' IP Address '', Str ''State'']
     (Some (''10.1.8.0/24'', ''LAN''), init empty_inventory) =
     Inr (Some (''10.1.8.0/24'', ''LAN''), init empty_inventory)"
proof -
  have l: "lower ''IP Address'' = ''ip address''"
    by code_simp
  have s: "strip ''IP Address'' = ''IP Address''" "strip '' IP Address '' = ''IP Address''"
    by (simp_all add: strip_def isspace_def)
  show ?thesis
    using column_title_row_does_nothing [OF cpython_contract, of "''IP Address''" "[Str ''State'']"
        False netbox_store "Some (''10.1.8.0/24'', ''LAN'')" "init empty_inventory"]
      column_title_row_does_nothing [OF cpython_contract, of "'' IP Address ''" "[Str ''State'']"
        False netbox_store "Some (''10.1.8.0/24'', ''LAN'')" "init empty_inventory"]
    by (simp add: l s)
qed

text \<open>
  Claim C8 as stated fails on \<^verbatim>\<open> IP Address \<close>: stripped and lowered it is the
  column title, yet the row is classified as noise.
\<close>

theorem column_title_counterexample:
  "lower (strip '' IP Address '') = ''ip address'' \<and>
   classify cpython [Str '' IP Address ''] = Inr Noise"
proof -
  have l: "lower ''IP Address'' = ''ip address''" "lower '' IP Address '' \<noteq> ''ip address''"
    by code_simp+
  have s: "strip '' IP Address '' = ''IP Address''"
    by (simp add: strip_def isspace_def)
  show ?thesis
    using classify_column_title [OF cpython_contract, of "'' IP Address ''" "[]"]
    by (simp add: l s)
qed

subsection \<open>Every row with a first cell is processed\<close>

lemma classify_returns: "row \<noteq> [] \<Longrightarrow> \<exists>k. classify lib row = Inr k"
  by (cases row) (simp_all add: classify_def)

lemma process_row_returns:
  assumes "row \<noteq> []"
  shows "\<exists>st'. process_row dry_run lib c row st = Inr st'"
proof -
  obtain k where k: "classify lib row = Inr k"
    using classify_returns [OF assms] by blast
  obtain cur w where st: "st = (cur, w)"
    by (cases st)
  show ?thesis
    by (cases k) (simp_all add: process_row_def k st)
qed

lemma process_rows_returns:
  "[] \<notin> set df \<Longrightarrow> \<exists>st'. process_rows dry_run lib c df st = Inr st'"
proof (induction df arbitrary: st)
  case Nil
  show ?case by simp
next
  case (Cons row df)
  then have "row \<noteq> []" and rest: "[] \<notin> set df"
    by auto
  then obtain st1 where "process_row dry_run lib c row st = Inr st1"
    using process_row_returns by blast
  then show ?case
    using Cons.IH [OF rest, of st1] by simp
qed

lemma process_data_returns:
  "[] \<notin> set df \<Longrightarrow> \<exists>w'. process_data dry_run lib c df w = Inr w'"
proof -
  assume "[] \<notin> set df"
  then obtain st' where "process_rows dry_run lib c df (None, w) = Inr st'"
    using process_rows_returns by blast
  then show ?thesis
    by (cases st') (simp add: process_data_def)
qed




lemma invalid_token_kind:
  assumes "\<forall>s d. classify lib (first_col # rest) \<noteq> Inr (SubnetHeader s d)"
    and "ip_address lib (strip (py_str first_col)) = None"
  shows "classify lib (first_col # rest) =
     Inr (if isinstance_str first_col \<and> lower (py_str first_col) = ''ip address''
          then ColumnTitle else Noise)"
  using assms by (auto simp add: classify_def split: option.splits if_splits)

text \<open>
  Claim C9. A row of a data frame has the columns of the frame, and a frame read from a
  sheet that has rows has a column 0, so every row the loop is handed has a first cell.
  Such a row is always classified, whatever the cell holds, and its processing returns,
  in either mode and with any client; so does \<^verbatim>\<open>process_data\<close> on the frame. When
  the first cell is no subnet header and its stripped text is no address, the row is
  noise (a column title when the cell is the text \<^verbatim>\<open>ip address\<close> in some letter
  case): no intent, no counter changed (not \<open>errors\<close> either), the current subnet as
  it was.
\<close>

theorem rows_with_first_cell_never_raise:
  assumes "row \<noteq> []" and "[] \<notin> set df"
  shows "(\<exists>k. classify lib row = Inr k) \<and>
         (\<exists>st'. process_row dry_run lib c row (cur, w) = Inr st') \<and>
         (\<exists>w'. process_data dry_run lib c df w = Inr w') \<and>
         ((\<forall>s d. classify lib row \<noteq> Inr (SubnetHeader s d)) \<and>
          ip_address lib (strip (py_str (hd row))) = None \<longrightarrow>
            classify lib row =
              Inr (if isinstance_str (hd row) \<and> lower (py_str (hd row)) = ''ip address''
                   then ColumnTitle else Noise) \<and>
            process_row dry_run lib c row (cur, w) = Inr (cur, w))"
proof -
  obtain first_col rest where row: "row = first_col # rest"
    using assms(1) by (cases row) auto
  have "(\<forall>s d. classify lib row \<noteq> Inr (SubnetHeader s d)) \<and>
          ip_address lib (strip (py_str (hd row))) = None \<longrightarrow>
            classify lib row =
              Inr (if isinstance_str (hd row) \<and> lower (py_str (hd row)) = ''ip address''
                   then ColumnTitle else Noise) \<and>
            process_row dry_run lib c row (cur, w) = Inr (cur, w)"
    using invalid_token_kind [of lib first_col rest]
      process_row_no_intent [of lib row dry_run c cur w]
    by (auto simp add: row)
  then show ?thesis
    using classify_returns [OF assms(1)] process_row_returns [OF assms(1)]
      process_data_returns [OF assms(2)]
    by blast
qed

theorem rows_with_first_cell_never_raise_witness:
  "classify cpython [Str ''not-an-ip'', Str ''Used''] = Inr Noise \<and>
   process_row False cpython (raising RequestError) [Str ''not-an-ip'', Str ''Used''] (None, init ()) =
     Inr (None, init ()) \<and>
   (\<exists>w'. process_data False cpython (raising RequestError)
            [[Str ''not-an-ip'', Str ''Used''], [NaN], [Other ''42'' True], [Str ''10.1.8.5'']]
            (init ()) = Inr w')"
proof -
  have ip: "ip_address cpython (strip (py_str (hd [Str ''not-an-ip'', Str ''Used'']))) = None"
    by (simp add: strip_def isspace_def cpython_def cpython_not_an_ip)
  have k: "classify cpython [Str ''not-an-ip'', Str ''Used''] = Inr Noise"
    using ip by (simp add: classify_def parse_subnet_header_def lower_def)
  show ?thesis
    using rows_with_first_cell_never_raise [of "[Str ''not-an-ip'', Str ''Used'']"
        "[[Str ''not-an-ip'', Str ''Used''], [NaN], [Other ''42'' True], [Str ''10.1.8.5'']]"
        cpython False "raising RequestError" None "init ()"]
      ip k
    by simp
qed

section \<open>Running twice\<close>

subsection \<open>What a reliable client gives\<close>























end
